theory Spec2Isabelle
  imports Complex_Main
begin

section \<open>Data model (src/App.tsx, lines 18--44)\<close>

text \<open>
  The interfaces \<^verbatim>\<open>PlantData\<close> and \<^verbatim>\<open>DayData\<close> become records. A JavaScript
  \<^verbatim>\<open>number\<close> that carries a measurement is a \<^typ>\<open>real\<close> (the generator only
  produces integer-valued numbers; NaN and the infinities never arise). A \<^verbatim>\<open>Date\<close> is
  its time value: an integer count of milliseconds, read in local time. The field
  \<^verbatim>\<open>value\<close> of \<^verbatim>\<open>DayData\<close> is called \<open>dayValue\<close> here.
\<close>

record PlantData =
  datetime :: int
  displayTime :: string
  displayDate :: string
  temperature :: real
  humidity :: real
  soilMoisture :: real

record DayData =
  label :: string
  dayValue :: string
  data :: "PlantData list"

datatype PlantStatus = Healthy | NeedsWater | TooHot | LowHumidity

datatype MetricType = Temperature | Humidity | SoilMoisture

section \<open>The host: dates, formatting, random numbers\<close>

text \<open>
  The code reads and writes dates through the local-time accessors \<^verbatim>\<open>getDate\<close>,
  \<^verbatim>\<open>setDate\<close> and \<^verbatim>\<open>setHours\<close>. They are modelled after the abstract operations
  of ECMAScript on a time value \<open>t\<close>, the milliseconds since the epoch in UTC:
  \<open>Day t\<close> is the day number, \<open>TimeWithinDay t\<close> the milliseconds since midnight, and
  \<open>MakeDay\<close> counts from the first day of a month. A local-time accessor converts the
  time value to local time (\<open>LocalTime\<close>), computes there, and converts back (\<open>UTC\<close>).

  What the host supplies and the source does not define is a parameter:
  \<^item> \<open>localTZA t isUTC\<close>, the offset of local time from UTC in milliseconds, at the
    UTC time \<open>t\<close> when \<open>isUTC\<close> holds and at the local time \<open>t\<close> otherwise (ECMAScript's
    \<open>LocalTZA\<close>; a local time that a daylight-saving jump skips or repeats takes the
    offset before the jump);
  \<^item> the calendar: the day number of the first day of the month that holds a given
    day number;
  \<^item> the two locale formatters, which map a time value to a string.
\<close>

record host =
  localTZA :: "int \<Rightarrow> bool \<Rightarrow> int"
  monthStart :: "int \<Rightarrow> int"
  toLocaleDateString :: "int \<Rightarrow> string"
  toLocaleTimeString :: "int \<Rightarrow> string"

definition msPerDay :: int where
  "msPerDay = 86400000"

definition msPerHour :: int where
  "msPerHour = 3600000"

definition msPerMinute :: int where
  "msPerMinute = 60000"

definition msPerSecond :: int where
  "msPerSecond = 1000"

definition Day :: "int \<Rightarrow> int" where
  "Day t = t div msPerDay"

definition TimeWithinDay :: "int \<Rightarrow> int" where
  "TimeWithinDay t = t mod msPerDay"


definition MinFromTime :: "int \<Rightarrow> int" where
  "MinFromTime t = (t div msPerMinute) mod 60"

definition MakeTime :: "int \<Rightarrow> int \<Rightarrow> int \<Rightarrow> int \<Rightarrow> int" where
  "MakeTime h m s milli = h * msPerHour + m * msPerMinute + s * msPerSecond + milli"

definition MakeDate :: "int \<Rightarrow> int \<Rightarrow> int" where
  "MakeDate day time = day * msPerDay + time"

definition LocalTime :: "host \<Rightarrow> int \<Rightarrow> int" where
  "LocalTime env t = t + localTZA env t True"

definition UTC :: "host \<Rightarrow> int \<Rightarrow> int" where
  "UTC env t = t - localTZA env t False"

definition getDate :: "host \<Rightarrow> int \<Rightarrow> int" where
  "getDate env t = (let tl = LocalTime env t in Day tl - monthStart env (Day tl) + 1)"

definition setDate :: "host \<Rightarrow> int \<Rightarrow> int \<Rightarrow> int" where
  "setDate env t dt =
     (let tl = LocalTime env t
      in UTC env (MakeDate (monthStart env (Day tl) + dt - 1) (TimeWithinDay tl)))"

definition setHours :: "host \<Rightarrow> int \<Rightarrow> int \<Rightarrow> int \<Rightarrow> int \<Rightarrow> int \<Rightarrow> int" where
  "setHours env t h m s milli =
     UTC env (MakeDate (Day (LocalTime env t)) (MakeTime h m s milli))"


text \<open>
  \<^verbatim>\<open>Math.floor\<close> returns a number. \<^verbatim>\<open>Math.random()\<close> is an input: the draws of one call
  of the generator are a sequence \<open>rnd\<close>, where \<open>rnd k\<close> is what the \<open>k\<close>-th call of
  \<^verbatim>\<open>Math.random()\<close> returns. ECMAScript promises \<open>0 \<le> rnd k\<close> and \<open>rnd k < 1\<close>; the
  theorems that need it assume it. The product with 10, 20 or 30 is taken exactly: in
  double arithmetic the largest draw \<open>1 - 2\<^sup>-\<^sup>5\<^sup>3\<close> times 10, 20 or 30 rounds to the double
  just below 10, 20 or 30, so rounding does not change the range of the floor.
\<close>

definition Math_floor :: "real \<Rightarrow> real" where
  "Math_floor x = of_int \<lfloor>x\<rfloor>"

definition unit_draws :: "(nat \<Rightarrow> real) \<Rightarrow> bool" where
  "unit_draws rnd = (\<forall>k. 0 \<le> rnd k \<and> rnd k < 1)"

section \<open>The synthetic data generator (lines 46--80)\<close>

text \<open>
  The object literal of lines 62--69 evaluates its properties in order, so one reading
  takes three draws: \<open>rnd k\<close> for the temperature, \<open>rnd (k + 1)\<close> for the humidity and
  \<open>rnd (k + 2)\<close> for the soil moisture.
\<close>

definition makeReading :: "host \<Rightarrow> int \<Rightarrow> (nat \<Rightarrow> real) \<Rightarrow> nat \<Rightarrow> nat \<Rightarrow> PlantData" where
  "makeReading env date rnd k hour =
     (let dt = setHours env date (int hour) 0 0 0 in
      \<lparr>datetime = dt,
       displayTime = toLocaleTimeString env dt,
       displayDate = toLocaleDateString env dt,
       temperature = Math_floor (rnd k * 10) + 65,
       humidity = Math_floor (rnd (k + 1) * 20) + 50,
       soilMoisture = Math_floor (rnd (k + 2) * 30) + 40\<rparr>)"

text \<open>
  The inner loop \<^verbatim>\<open>for (let hour = 0; hour < 24; hour += 2)\<close>: \<open>dayData\<close> is the array
  pushed to, \<open>k\<close> counts the draws taken so far; the loop returns both.
\<close>

function hourLoop ::
  "host \<Rightarrow> int \<Rightarrow> (nat \<Rightarrow> real) \<Rightarrow> nat \<Rightarrow> nat \<Rightarrow> PlantData list \<Rightarrow> PlantData list \<times> nat" where
  "hourLoop env date rnd k hour dayData =
     (if hour < 24
      then hourLoop env date rnd (k + 3) (hour + 2) (dayData @ [makeReading env date rnd k hour])
      else (dayData, k))"
  by pat_completeness auto
termination
  by (relation "measure (\<lambda>(env, date, rnd, k, hour, dayData). 24 - hour)") auto

declare hourLoop.simps [simp del]

text \<open>The outer loop \<^verbatim>\<open>for (let dayOffset = 0; dayOffset < 7; dayOffset++)\<close>.\<close>

function dayLoop ::
  "host \<Rightarrow> int \<Rightarrow> (nat \<Rightarrow> real) \<Rightarrow> nat \<Rightarrow> nat \<Rightarrow> DayData list \<Rightarrow> DayData list" where
  "dayLoop env now rnd k dayOffset days =
     (if dayOffset < 7
      then
        (let date = setDate env now (getDate env now - int dayOffset);
             dayStr = toLocaleDateString env date;
             res = hourLoop env date rnd k 0 []
         in dayLoop env now rnd (snd res) (dayOffset + 1)
              (days @ [\<lparr>label = dayStr, dayValue = dayStr, data = fst res\<rparr>]))
      else days)"
  by pat_completeness auto
termination
  by (relation "measure (\<lambda>(env, now, rnd, k, dayOffset, days). 7 - dayOffset)") auto

declare dayLoop.simps [simp del]

definition generateHistoricalData :: "host \<Rightarrow> int \<Rightarrow> (nat \<Rightarrow> real) \<Rightarrow> DayData list" where
  "generateHistoricalData env now rnd = dayLoop env now rnd 0 0 []"

definition readings :: "DayData list \<Rightarrow> PlantData list" where
  "readings days = concat (map data days)"

section \<open>The status classifier (lines 99--111)\<close>

definition classify :: "PlantData \<Rightarrow> PlantStatus" where
  "classify r =
     (if soilMoisture r < 45 then NeedsWater
      else if temperature r > 75 then TooHot
      else if humidity r < 55 then LowHumidity
      else Healthy)"

section \<open>The dashboard (lines 82--118 and the handlers of lines 186--328)\<close>

text \<open>
  A JavaScript exception is an error value. The only one this code can throw is the
  \<^verbatim>\<open>TypeError\<close> of reading a property of \<^verbatim>\<open>undefined\<close>, which is what indexing an
  array out of range returns.
\<close>

datatype error = TypeError

definition bind_result :: "error + 'a \<Rightarrow> ('a \<Rightarrow> error + 'b) \<Rightarrow> error + 'b" where
  "bind_result x f = (case x of Inl e \<Rightarrow> Inl e | Inr v \<Rightarrow> f v)"

definition elementAt :: "'a list \<Rightarrow> nat \<Rightarrow> 'a option" where
  "elementAt xs i = (if i < length xs then Some (xs ! i) else None)"

text \<open>The six \<^verbatim>\<open>useState\<close> cells of \<^verbatim>\<open>PlantDashboard\<close> (lines 83--88).\<close>

record dashboard =
  allDaysData :: "DayData list"
  selectedDayIndex :: nat
  plantData :: "PlantData list"
  selectedMetric :: MetricType
  plantStatus :: PlantStatus
  dayPickerVisible :: bool

text \<open>Line 91: \<^verbatim>\<open>plantData[plantData.length - 1]\<close>, undefined on an empty array.\<close>

definition currentData :: "dashboard \<Rightarrow> PlantData option" where
  "currentData s = (if plantData s = [] then None else Some (last (plantData s)))"

text \<open>
  One render followed by its effects. The render reads \<^verbatim>\<open>allDaysData[selectedDayIndex].label\<close>
  (line 225) and the fields of \<^verbatim>\<open>currentData\<close> (lines 200--212), so it throws when
  either is undefined. An effect runs when one of its dependencies differs from the
  previous render (\<open>prev\<close>, or \<open>None\<close> on the first render, where every effect runs):
  the effect of lines 94--96 depends on \<^verbatim>\<open>selectedDayIndex\<close> and \<^verbatim>\<open>allDaysData\<close>, the
  effect of lines 99--111 on \<^verbatim>\<open>currentData\<close>. Both read the values of the render they
  belong to, and their state updates are applied together afterwards. React compares
  dependencies by identity; the model compares them by value.
\<close>

definition renderPass :: "dashboard option \<Rightarrow> dashboard \<Rightarrow> error + dashboard" where
  "renderPass prev cur =
     (case elementAt (allDaysData cur) (selectedDayIndex cur) of
        None \<Rightarrow> Inl TypeError
      | Some d \<Rightarrow>
          (case currentData cur of
             None \<Rightarrow> Inl TypeError
           | Some r \<Rightarrow>
               Inr (cur\<lparr>plantData :=
                          (if (case prev of None \<Rightarrow> True
                               | Some p \<Rightarrow> selectedDayIndex cur \<noteq> selectedDayIndex p \<or>
                                   allDaysData cur \<noteq> allDaysData p)
                           then data d else plantData cur),
                        plantStatus :=
                          (if (case prev of None \<Rightarrow> True
                               | Some p \<Rightarrow> currentData p \<noteq> Some r)
                           then classify r else plantStatus cur)\<rparr>)))"

text \<open>
  The state updates of the effects cause another render, whose effects may run in turn.
  After the second pass nothing changes any more (lemma \<open>renderPass_stable\<close>), so
  two passes bring the dashboard to rest.
\<close>

definition settle :: "dashboard option \<Rightarrow> dashboard \<Rightarrow> error + dashboard" where
  "settle prev s = bind_result (renderPass prev s) (renderPass (Some s))"

text \<open>Mounting the component: the initial values of lines 83--88, then the first render.\<close>

definition mount :: "host \<Rightarrow> int \<Rightarrow> (nat \<Rightarrow> real) \<Rightarrow> error + dashboard" where
  "mount env now rnd =
     (let generated = generateHistoricalData env now rnd in
      case elementAt generated 0 of
        None \<Rightarrow> Inl TypeError
      | Some d \<Rightarrow>
          settle None
            \<lparr>allDaysData = generated, selectedDayIndex = 0, plantData = data d,
             selectedMetric = Temperature, plantStatus = Healthy,
             dayPickerVisible = False\<rparr>)"

text \<open>Lines 114--118. The generator runs at the time \<open>now\<close> of the press, on fresh draws.\<close>

definition refreshData :: "host \<Rightarrow> int \<Rightarrow> (nat \<Rightarrow> real) \<Rightarrow> dashboard \<Rightarrow> error + dashboard" where
  "refreshData env now rnd s =
     (let newData = generateHistoricalData env now rnd in
      case elementAt newData (selectedDayIndex s) of
        None \<Rightarrow> Inl TypeError
      | Some d \<Rightarrow> Inr (s\<lparr>allDaysData := newData, plantData := data d\<rparr>))"

text \<open>
  The touch interface: the refresh button (line 186), the three metric buttons (lines
  235, 244, 253), the rows of the day picker (lines 321--328), and opening (line 223)
  and closing (lines 309, 315) the picker. The picker has one row for each element of
  \<^verbatim>\<open>allDaysData\<close>, so the row \<open>index\<close> can be pressed only when it is below the length.
\<close>

datatype event =
  PressRefresh int "nat \<Rightarrow> real"
  | PressMetric MetricType
  | PressDay nat
  | OpenDayPicker
  | CloseDayPicker

fun offered :: "dashboard \<Rightarrow> event \<Rightarrow> bool" where
  "offered s (PressDay index) = (index < length (allDaysData s))"
| "offered s _ = True"

fun handler :: "host \<Rightarrow> event \<Rightarrow> dashboard \<Rightarrow> error + dashboard" where
  "handler env (PressRefresh now rnd) s = refreshData env now rnd s"
| "handler env (PressMetric m) s = Inr (s\<lparr>selectedMetric := m\<rparr>)"
| "handler env (PressDay index) s = Inr (s\<lparr>selectedDayIndex := index, dayPickerVisible := False\<rparr>)"
| "handler env OpenDayPicker s = Inr (s\<lparr>dayPickerVisible := True\<rparr>)"
| "handler env CloseDayPicker s = Inr (s\<lparr>dayPickerVisible := False\<rparr>)"

definition dispatch :: "host \<Rightarrow> event \<Rightarrow> dashboard \<Rightarrow> error + dashboard" where
  "dispatch env ev s = bind_result (handler env ev s) (settle (Some s))"

text \<open>
  What the summary cards show (lines 200, 206 and 212): the three measurements of
  \<^verbatim>\<open>currentData\<close>.
\<close>

definition displayedMetrics :: "dashboard \<Rightarrow> (real \<times> real \<times> real) option" where
  "displayedMetrics s =
     map_option (\<lambda>r. (temperature r, humidity r, soilMoisture r)) (currentData s)"

section \<open>Predicates and closed forms used in the statements\<close>

text \<open>The selected day index is within bounds of the generated set of seven buckets.\<close>

definition day_in_bounds :: "dashboard \<Rightarrow> bool" where
  "day_in_bounds s = (selectedDayIndex s < length (allDaysData s) \<and> length (allDaysData s) = 7)"

text \<open>
  What holds of the dashboard at rest: seven buckets of twelve readings, the selected
  index in bounds, the active reading sequence is the selected bucket, and the status is
  the classification of its last reading.
\<close>

definition dashboard_inv :: "dashboard \<Rightarrow> bool" where
  "dashboard_inv s =
     (map (\<lambda>d. length (data d)) (allDaysData s) = replicate 7 12 \<and>
      selectedDayIndex s < 7 \<and>
      plantData s = data (allDaysData s ! selectedDayIndex s) \<and>
      plantStatus s = classify (last (plantData s)))"

text \<open>
  The date of bucket \<open>dayOffset\<close> (lines 52--53), and the closed form of bucket \<open>i\<close> of a
  generator run whose first draw for that bucket is \<open>rnd k\<close>; lemma
  \<open>generateHistoricalData_closed\<close> proves that the loops compute it.
\<close>

definition dayDate :: "host \<Rightarrow> int \<Rightarrow> nat \<Rightarrow> int" where
  "dayDate env now dayOffset = setDate env now (getDate env now - int dayOffset)"

definition bucket :: "host \<Rightarrow> int \<Rightarrow> (nat \<Rightarrow> real) \<Rightarrow> nat \<Rightarrow> nat \<Rightarrow> DayData" where
  "bucket env now rnd k i =
     \<lparr>label = toLocaleDateString env (dayDate env now i),
      dayValue = toLocaleDateString env (dayDate env now i),
      data = map (\<lambda>j. makeReading env (dayDate env now i) rnd (k + 3 * j) (2 * j)) [0..<12]\<rparr>"


text \<open>
  A host and draws for the concrete instances: local time is UTC and every month starts
  at day 0.
\<close>

definition host0 :: host where
  "host0 = \<lparr>localTZA = (\<lambda>t isUTC. 0), monthStart = (\<lambda>d. 0),
            toLocaleDateString = (\<lambda>t. []), toLocaleTimeString = (\<lambda>t. [])\<rparr>"


definition half :: "nat \<Rightarrow> real" where
  "half k = 1 / 2"

definition nines :: "nat \<Rightarrow> real" where
  "nines k = 9999 / 10000"

text \<open>
  Two concrete dashboards: \<open>dashboard0\<close> is the dashboard mounted at time 0 on the draws
  \<open>half\<close> (lemma \<open>mount_dashboard0\<close>), \<open>dashboard3\<close> is what it becomes when row 3 of
  the day picker is pressed (lemma \<open>dispatch_PressDay3\<close>).
\<close>

definition dashboard0 :: dashboard where
  "dashboard0 =
     \<lparr>allDaysData = generateHistoricalData host0 0 half, selectedDayIndex = 0,
      plantData = data (generateHistoricalData host0 0 half ! 0),
      selectedMetric = Temperature, plantStatus = Healthy, dayPickerVisible = False\<rparr>"

definition dashboard3 :: dashboard where
  "dashboard3 =
     dashboard0\<lparr>selectedDayIndex := 3, plantData := data (generateHistoricalData host0 0 half ! 3)\<rparr>"

section \<open>The generator in closed form\<close>

lemma upt_shift: "map f [0..<Suc n] = f 0 # map (\<lambda>j. f (Suc j)) [0..<n]"
  by (simp only: upt_conv_Cons[of 0 "Suc n"] map_Suc_upt[symmetric] list.map map_map o_def)

lemma hourLoop_unfold:
  "hourLoop env date rnd k hour dayData =
     (dayData @ map (\<lambda>j. makeReading env date rnd (k + 3 * j) (hour + 2 * j)) [0..<(25 - hour) div 2],
      k + 3 * ((25 - hour) div 2))"
proof (induction env date rnd k hour dayData rule: hourLoop.induct)
  case (1 env date rnd k hour dayData)
  show ?case
  proof (cases "hour < 24")
    case True
    then have n: "(25 - hour) div 2 = Suc ((25 - (hour + 2)) div 2)" by arith
    show ?thesis
      using True "1.IH"[OF True]
      by (subst hourLoop.simps) (simp add: n upt_shift add.assoc del: upt_Suc)
  next
    case False
    then have "(25 - hour) div 2 = 0" by arith
    with False show ?thesis by (subst hourLoop.simps) simp
  qed
qed

lemma dayLoop_unfold:
  "dayLoop env now rnd k dayOffset days =
     days @ map (\<lambda>i. bucket env now rnd (k + 36 * i) (dayOffset + i)) [0..<7 - dayOffset]"
proof (induction env now rnd k dayOffset days rule: dayLoop.induct)
  case (1 env now rnd k dayOffset days)
  show ?case
  proof (cases "dayOffset < 7")
    case True
    then have n: "7 - dayOffset = Suc (7 - (dayOffset + 1))" by arith
    have h: "hourLoop env date rnd k 0 [] =
        (map (\<lambda>j. makeReading env date rnd (k + 3 * j) (2 * j)) [0..<12], k + 36)" for date
      by (simp add: hourLoop_unfold)
    show ?thesis
      using True "1.IH"[OF True refl refl refl]
      by (subst dayLoop.simps)
        (simp add: n upt_shift h dayDate_def bucket_def Let_def add.assoc add.left_commute
          del: upt_Suc)
  next
    case False
    then show ?thesis by (subst dayLoop.simps) simp
  qed
qed

lemma generateHistoricalData_closed:
  "generateHistoricalData env now rnd = map (\<lambda>i. bucket env now rnd (36 * i) i) [0..<7]"
  by (simp add: generateHistoricalData_def dayLoop_unfold)

lemma length_generateHistoricalData: "length (generateHistoricalData env now rnd) = 7"
  by (simp add: generateHistoricalData_closed)

lemma nth_generateHistoricalData:
  "i < 7 \<Longrightarrow> generateHistoricalData env now rnd ! i = bucket env now rnd (36 * i) i"
  by (simp add: generateHistoricalData_closed del: upt_Suc)

lemma length_data_bucket: "length (data (bucket env now rnd k i)) = 12"
  by (simp add: bucket_def)

lemma nth_data_bucket:
  "j < 12 \<Longrightarrow> data (bucket env now rnd k i) ! j =
     makeReading env (dayDate env now i) rnd (k + 3 * j) (2 * j)"
  by (simp add: bucket_def del: upt_Suc)

lemma readings_generated_iff:
  "r \<in> set (readings (generateHistoricalData env now rnd)) \<longleftrightarrow>
     (\<exists>i<7. \<exists>j<12. r = makeReading env (dayDate env now i) rnd (36 * i + 3 * j) (2 * j))"
proof -
  have "set (readings (generateHistoricalData env now rnd)) =
      (\<Union>i\<in>{0..<7}. (\<lambda>j. makeReading env (dayDate env now i) rnd (36 * i + 3 * j) (2 * j)) ` {0..<12})"
    by (simp add: readings_def generateHistoricalData_closed bucket_def del: upt_Suc)
  then show ?thesis
    by (simp only: UN_iff image_iff Bex_def atLeastLessThan_iff) blast
qed

lemma first_reading_generated:
  "makeReading env (dayDate env now 0) rnd 0 0 \<in> set (readings (generateHistoricalData env now rnd))"
  unfolding readings_generated_iff
  by (rule exI[of _ 0], simp, rule exI[of _ 0], simp)

lemma dayDate_host0: "dayDate host0 t i = t - int i * msPerDay"
  by (simp add: dayDate_def setDate_def getDate_def LocalTime_def UTC_def host0_def MakeDate_def
      Day_def TimeWithinDay_def Let_def algebra_simps)

lemma first_reading_host0:
  "makeReading host0 0 rnd 0 0 \<in> set (readings (generateHistoricalData host0 0 rnd))"
  using first_reading_generated[of host0 0 rnd] by (simp add: dayDate_host0)

lemma unit_draws_half: "unit_draws half"
  by (simp add: unit_draws_def half_def)

lemma makeReading_host0_half:
  "makeReading host0 0 half 0 0 =
     \<lparr>datetime = 0, displayTime = [], displayDate = [],
      temperature = 70, humidity = 60, soilMoisture = 55\<rparr>"
  by (simp add: makeReading_def host0_def half_def Math_floor_def setHours_def MakeDate_def
      MakeTime_def Day_def LocalTime_def UTC_def Let_def)

section \<open>The status classifier\<close>

text \<open>
  Claim C1. The status of a reading is decided by fixed thresholds in priority order:
  soil moisture below 45 gives needs-water whatever the other fields are; otherwise a
  temperature above 75 gives too-hot; otherwise a humidity below 55 gives low-humidity;
  otherwise the plant is healthy. The function is total and depends on the reading
  alone. The four examples of the specification hold for every value of the fields they
  do not fix.
\<close>

theorem classify_priority:
  "(soilMoisture r < 45 \<longrightarrow> classify r = NeedsWater) \<and>
   (\<not> soilMoisture r < 45 \<and> temperature r > 75 \<longrightarrow> classify r = TooHot) \<and>
   (\<not> soilMoisture r < 45 \<and> \<not> temperature r > 75 \<and> humidity r < 55 \<longrightarrow>
      classify r = LowHumidity) \<and>
   (\<not> soilMoisture r < 45 \<and> \<not> temperature r > 75 \<and> \<not> humidity r < 55 \<longrightarrow>
      classify r = Healthy) \<and>
   classify (r\<lparr>soilMoisture := 40\<rparr>) = NeedsWater \<and>
   classify (r\<lparr>soilMoisture := 50, temperature := 80\<rparr>) = TooHot \<and>
   classify (r\<lparr>soilMoisture := 50, temperature := 70, humidity := 50\<rparr>) = LowHumidity \<and>
   classify (r\<lparr>soilMoisture := 50, temperature := 70, humidity := 60\<rparr>) = Healthy"
  by (simp add: classify_def)

theorem classify_priority_witness:
  "classify \<lparr>datetime = 0, displayTime = [], displayDate = [],
      temperature = 90, humidity = 10, soilMoisture = 44\<rparr> = NeedsWater \<and>
   classify \<lparr>datetime = 0, displayTime = [], displayDate = [],
      temperature = 76, humidity = 10, soilMoisture = 45\<rparr> = TooHot \<and>
   classify \<lparr>datetime = 0, displayTime = [], displayDate = [],
      temperature = 75, humidity = 54, soilMoisture = 45\<rparr> = LowHumidity \<and>
   classify \<lparr>datetime = 0, displayTime = [], displayDate = [],
      temperature = 75, humidity = 55, soilMoisture = 45\<rparr> = Healthy"
  using
    classify_priority[of "\<lparr>datetime = 0, displayTime = [], displayDate = [],
      temperature = 90, humidity = 10, soilMoisture = 44\<rparr>"]
    classify_priority[of "\<lparr>datetime = 0, displayTime = [], displayDate = [],
      temperature = 76, humidity = 10, soilMoisture = 45\<rparr>"]
    classify_priority[of "\<lparr>datetime = 0, displayTime = [], displayDate = [],
      temperature = 75, humidity = 54, soilMoisture = 45\<rparr>"]
    classify_priority[of "\<lparr>datetime = 0, displayTime = [], displayDate = [],
      temperature = 75, humidity = 55, soilMoisture = 45\<rparr>"]
  by simp

section \<open>Ranges of the generated measurements\<close>

lemma floor_draw_range:
  assumes "0 \<le> x" "x < 1" "0 < n"
  shows "0 \<le> Math_floor (x * of_int n) \<and> Math_floor (x * of_int n) \<le> of_int n - 1"
proof -
  have "0 \<le> x * of_int n" using assms by simp
  then have lo: "0 \<le> \<lfloor>x * of_int n\<rfloor>" by simp
  have "x * of_int n < of_int n" using assms by simp
  then have "\<lfloor>x * of_int n\<rfloor> < n" by (simp add: floor_less_iff)
  then have hi: "\<lfloor>x * real_of_int n\<rfloor> \<le> n - 1" by simp
  have "real_of_int \<lfloor>x * real_of_int n\<rfloor> \<le> real_of_int (n - 1)"
    using hi by (simp only: of_int_le_iff)
  with lo show ?thesis by (simp add: Math_floor_def)
qed

lemma makeReading_ranges:
  assumes "unit_draws rnd"
  shows "65 \<le> temperature (makeReading env date rnd k h) \<and>
         temperature (makeReading env date rnd k h) \<le> 74 \<and>
         50 \<le> humidity (makeReading env date rnd k h) \<and>
         humidity (makeReading env date rnd k h) \<le> 69 \<and>
         40 \<le> soilMoisture (makeReading env date rnd k h) \<and>
         soilMoisture (makeReading env date rnd k h) \<le> 69"
proof -
  have d: "0 \<le> rnd i \<and> rnd i < 1" for i using assms by (simp add: unit_draws_def)
  have t: "0 \<le> Math_floor (rnd k * 10) \<and> Math_floor (rnd k * 10) \<le> 9"
    using floor_draw_range[of "rnd k" 10] d by simp
  have h: "0 \<le> Math_floor (rnd (k + 1) * 20) \<and> Math_floor (rnd (k + 1) * 20) \<le> 19"
    using floor_draw_range[of "rnd (k + 1)" 20] d by simp
  have m: "0 \<le> Math_floor (rnd (k + 2) * 30) \<and> Math_floor (rnd (k + 2) * 30) \<le> 29"
    using floor_draw_range[of "rnd (k + 2)" 30] d by simp
  show ?thesis using t h m by (simp add: makeReading_def Let_def)
qed

lemma generated_reading_ranges:
  assumes "unit_draws rnd" and "r \<in> set (readings (generateHistoricalData env now rnd))"
  shows "65 \<le> temperature r \<and> temperature r \<le> 74 \<and> 50 \<le> humidity r \<and> humidity r \<le> 69 \<and>
         40 \<le> soilMoisture r \<and> soilMoisture r \<le> 69"
proof -
  from assms(2) obtain i j where
    "r = makeReading env (dayDate env now i) rnd (36 * i + 3 * j) (2 * j)"
    by (auto simp add: readings_generated_iff)
  then show ?thesis
    using makeReading_ranges[OF assms(1), of env "dayDate env now i" "36 * i + 3 * j" "2 * j"]
    by simp
qed

text \<open>
  Claim C2. Whatever the random draws are, every reading that the generator produces has
  its temperature in [65, 75], its humidity in [50, 70] and its soil moisture in
  [40, 70].
\<close>

theorem generated_ranges:
  assumes "unit_draws rnd" and "r \<in> set (readings (generateHistoricalData env now rnd))"
  shows "65 \<le> temperature r \<and> temperature r \<le> 75 \<and> 50 \<le> humidity r \<and> humidity r \<le> 70 \<and>
         40 \<le> soilMoisture r \<and> soilMoisture r \<le> 70"
  using generated_reading_ranges[OF assms] by simp

theorem generated_ranges_witness:
  "unit_draws half \<and>
   makeReading host0 0 half 0 0 \<in> set (readings (generateHistoricalData host0 0 half)) \<and>
   temperature (makeReading host0 0 half 0 0) = 70 \<and>
   humidity (makeReading host0 0 half 0 0) = 60 \<and>
   soilMoisture (makeReading host0 0 half 0 0) = 55 \<and>
   65 \<le> temperature (makeReading host0 0 half 0 0) \<and>
   temperature (makeReading host0 0 half 0 0) \<le> 75 \<and>
   50 \<le> humidity (makeReading host0 0 half 0 0) \<and>
   humidity (makeReading host0 0 half 0 0) \<le> 70 \<and>
   40 \<le> soilMoisture (makeReading host0 0 half 0 0) \<and>
   soilMoisture (makeReading host0 0 half 0 0) \<le> 70"
  using generated_ranges[OF unit_draws_half first_reading_host0[of half]]
    unit_draws_half first_reading_host0[of half]
  by (simp add: makeReading_host0_half)

section \<open>Shape of the generated dataset\<close>

text \<open>
  Claim C3. Every call of the generator returns exactly seven day buckets, and each of
  the seven holds exactly twelve readings.
\<close>

theorem generator_shape:
  "length (generateHistoricalData env now rnd) = 7 \<and>
   map (\<lambda>d. length (data d)) (generateHistoricalData env now rnd) = [12, 12, 12, 12, 12, 12, 12]"
  by (simp add: generateHistoricalData_closed bucket_def upt_conv_Cons del: upt_Suc)

lemma unit_draws_nines: "unit_draws nines"
  by (simp add: unit_draws_def nines_def)

lemma makeReading_host0_nines:
  "makeReading host0 0 nines 0 0 =
     \<lparr>datetime = 0, displayTime = [], displayDate = [],
      temperature = 74, humidity = 69, soilMoisture = 69\<rparr>"
  by (simp add: makeReading_def host0_def nines_def Math_floor_def setHours_def MakeDate_def
      MakeTime_def Day_def LocalTime_def UTC_def Let_def)

text \<open>
  Claim C9. On the output of the generator the classifier never answers too-hot: that
  branch needs a temperature above 75, and a generated temperature is at most 74. The
  status of a generated reading is needs-water, low-humidity or healthy.
\<close>

theorem generated_never_too_hot:
  assumes "unit_draws rnd" and "r \<in> set (readings (generateHistoricalData env now rnd))"
  shows "temperature r \<le> 74 \<and> classify r \<noteq> TooHot \<and>
         (classify r = NeedsWater \<or> classify r = LowHumidity \<or> classify r = Healthy)"
  using generated_reading_ranges[OF assms] by (simp add: classify_def)

theorem generated_never_too_hot_witness:
  "unit_draws nines \<and>
   makeReading host0 0 nines 0 0 \<in> set (readings (generateHistoricalData host0 0 nines)) \<and>
   temperature (makeReading host0 0 nines 0 0) = 74 \<and>
   classify (makeReading host0 0 nines 0 0) = Healthy \<and>
   classify (makeReading host0 0 nines 0 0) \<noteq> TooHot"
  using generated_never_too_hot[OF unit_draws_nines first_reading_host0[of nines]]
    unit_draws_nines first_reading_host0[of nines]
  by (simp add: makeReading_host0_nines classify_def)

text \<open>
  Claim C8 says that every integer of the stated ranges is the value of some draw, the
  upper endpoints 75, 70 and 70 included. The code does not do that: \<open>Math_floor (x * 10)\<close>
  is at most 9 for a draw below 1, so no draw gives a temperature of 75, a humidity of 70
  or a soil moisture of 70, although the comments of lines 66--68 give the ranges as
  65--75, 50--70 and 40--70. The draws \<open>nines\<close> give the largest values the code reaches.
\<close>

theorem generated_upper_endpoints_excluded:
  assumes "unit_draws rnd" and "r \<in> set (readings (generateHistoricalData env now rnd))"
  shows "temperature r \<noteq> 75 \<and> humidity r \<noteq> 70 \<and> soilMoisture r \<noteq> 70"
  using generated_reading_ranges[OF assms] by auto

theorem generated_upper_endpoints_excluded_witness:
  "unit_draws nines \<and>
   makeReading host0 0 nines 0 0 \<in> set (readings (generateHistoricalData host0 0 nines)) \<and>
   temperature (makeReading host0 0 nines 0 0) = 74 \<and>
   humidity (makeReading host0 0 nines 0 0) = 69 \<and>
   soilMoisture (makeReading host0 0 nines 0 0) = 69 \<and>
   temperature (makeReading host0 0 nines 0 0) \<noteq> 75 \<and>
   humidity (makeReading host0 0 nines 0 0) \<noteq> 70 \<and>
   soilMoisture (makeReading host0 0 nines 0 0) \<noteq> 70"
  using generated_upper_endpoints_excluded[OF unit_draws_nines first_reading_host0[of nines]]
    unit_draws_nines first_reading_host0[of nines]
  by (simp add: makeReading_host0_nines)

text \<open>
  Every integer below the upper endpoint is reached: the values of the code are exactly
  the integers of [65, 74], [50, 69] and [40, 69].
\<close>

lemma generated_values_attained:
  fixes t h m :: int
  assumes "65 \<le> t" "t \<le> 74" "50 \<le> h" "h \<le> 69" "40 \<le> m" "m \<le> 69"
  shows "\<exists>rnd. unit_draws rnd \<and>
     (\<exists>r \<in> set (readings (generateHistoricalData env now rnd)).
        temperature r = of_int t \<and> humidity r = of_int h \<and> soilMoisture r = of_int m)"
proof -
  define rnd :: "nat \<Rightarrow> real" where
    "rnd k = (if k = 0 then of_int (t - 65) / 10 else if k = 1 then of_int (h - 50) / 20
              else of_int (m - 40) / 30)" for k
  have u: "unit_draws rnd"
    using assms by (simp add: unit_draws_def rnd_def)
  have "temperature (makeReading env date rnd 0 0) = of_int t \<and>
      humidity (makeReading env date rnd 0 0) = of_int h \<and>
      soilMoisture (makeReading env date rnd 0 0) = of_int m" for date
  proof -
    have f0: "rnd 0 * 10 = of_int (t - 65)" by (simp add: rnd_def)
    have f1: "rnd (0 + 1) * 20 = of_int (h - 50)" by (simp add: rnd_def)
    have f2: "rnd (0 + 2) * 30 = of_int (m - 40)" by (simp add: rnd_def)
    have "Math_floor (rnd 0 * 10) + 65 = of_int t"
      unfolding Math_floor_def f0 floor_of_int by simp
    moreover have "Math_floor (rnd (0 + 1) * 20) + 50 = of_int h"
      unfolding Math_floor_def f1 floor_of_int by simp
    moreover have "Math_floor (rnd (0 + 2) * 30) + 40 = of_int m"
      unfolding Math_floor_def f2 floor_of_int by simp
    ultimately show ?thesis
      by (simp only: makeReading_def Let_def PlantData.select_convs) 
  qed
  with u first_reading_generated[of env now rnd] show ?thesis by blast
qed

section \<open>Days and hours of the generated readings\<close>
















section \<open>The dashboard: renders, effects and events\<close>

lemma dashboard_inv_iff:
  "dashboard_inv s \<longleftrightarrow>
     length (allDaysData s) = 7 \<and>
     (\<forall>k<7. length (data (allDaysData s ! k)) = 12) \<and>
     selectedDayIndex s < 7 \<and>
     plantData s = data (allDaysData s ! selectedDayIndex s) \<and>
     plantStatus s = classify (last (plantData s))"
  by (auto simp add: dashboard_inv_def list_eq_iff_nth_eq)

lemma renderPass_ok:
  assumes "selectedDayIndex cur < length (allDaysData cur)" and "plantData cur \<noteq> []"
  shows "renderPass prev cur =
     Inr (cur\<lparr>plantData :=
               (if (case prev of None \<Rightarrow> True
                    | Some p \<Rightarrow> selectedDayIndex cur \<noteq> selectedDayIndex p \<or>
                        allDaysData cur \<noteq> allDaysData p)
                then data (allDaysData cur ! selectedDayIndex cur) else plantData cur),
             plantStatus :=
               (if (case prev of None \<Rightarrow> True
                    | Some p \<Rightarrow> currentData p \<noteq> Some (last (plantData cur)))
                then classify (last (plantData cur)) else plantStatus cur)\<rparr>)"
  using assms by (simp add: renderPass_def elementAt_def currentData_def)

lemma renderPass_Inr:
  assumes "renderPass prev cur = Inr s'"
  shows "selectedDayIndex cur < length (allDaysData cur) \<and> plantData cur \<noteq> []"
  using assms
  by (simp add: renderPass_def elementAt_def currentData_def split: option.splits if_splits)

lemma renderPass_noop:
  assumes "selectedDayIndex cur < length (allDaysData cur)" and "plantData cur \<noteq> []"
    and "allDaysData cur = allDaysData p" and "selectedDayIndex cur = selectedDayIndex p"
    and "plantData cur = plantData p"
  shows "renderPass (Some p) cur = Inr cur"
  using assms by (simp add: renderPass_ok currentData_def)

lemma renderPass_stable:
  assumes "renderPass prev s = Inr s1" and "renderPass (Some s) s1 = Inr s2"
  shows "renderPass (Some s1) s2 = Inr s2"
proof -
  have ok0: "selectedDayIndex s < length (allDaysData s) \<and> plantData s \<noteq> []"
    using assms(1) by (rule renderPass_Inr)
  have ok1: "selectedDayIndex s1 < length (allDaysData s1) \<and> plantData s1 \<noteq> []"
    using assms(2) by (rule renderPass_Inr)
  have s1: "allDaysData s1 = allDaysData s \<and> selectedDayIndex s1 = selectedDayIndex s"
    using assms(1) ok0 by (auto simp add: renderPass_ok)
  have s2: "allDaysData s2 = allDaysData s1 \<and> selectedDayIndex s2 = selectedDayIndex s1 \<and>
      plantData s2 = plantData s1"
    using assms(2) ok1 s1 by (auto simp add: renderPass_ok)
  show ?thesis
    using ok1 s2 by (simp add: renderPass_noop)
qed

lemma settle_unchanged:
  assumes "selectedDayIndex s < length (allDaysData s)" and "plantData s \<noteq> []"
    and "allDaysData s' = allDaysData s" and "selectedDayIndex s' = selectedDayIndex s"
    and "plantData s' = plantData s"
  shows "settle (Some s) s' = Inr s'"
  using assms by (simp add: settle_def bind_result_def renderPass_noop)

lemma dispatch_PressMetric:
  assumes "selectedDayIndex s < length (allDaysData s)" and "plantData s \<noteq> []"
  shows "dispatch env (PressMetric m) s = Inr (s\<lparr>selectedMetric := m\<rparr>)"
  using assms by (simp add: dispatch_def bind_result_def settle_unchanged)

lemma dispatch_OpenDayPicker:
  assumes "selectedDayIndex s < length (allDaysData s)" and "plantData s \<noteq> []"
  shows "dispatch env OpenDayPicker s = Inr (s\<lparr>dayPickerVisible := True\<rparr>)"
  using assms by (simp add: dispatch_def bind_result_def settle_unchanged)

lemma dispatch_CloseDayPicker:
  assumes "selectedDayIndex s < length (allDaysData s)" and "plantData s \<noteq> []"
  shows "dispatch env CloseDayPicker s = Inr (s\<lparr>dayPickerVisible := False\<rparr>)"
  using assms by (simp add: dispatch_def bind_result_def settle_unchanged)

lemma dispatch_PressDay:
  assumes "dashboard_inv s" and "i < length (allDaysData s)"
  shows "dispatch env (PressDay i) s =
     Inr (s\<lparr>selectedDayIndex := i, dayPickerVisible := False,
            plantData := data (allDaysData s ! i),
            plantStatus := classify (last (data (allDaysData s ! i)))\<rparr>)"
proof -
  from assms have i: "i < 7"
    and ne: "\<And>k. k < 7 \<Longrightarrow> data (allDaysData s ! k) \<noteq> []"
    and sel: "selectedDayIndex s < 7"
    and pd: "plantData s = data (allDaysData s ! selectedDayIndex s)"
    and st: "plantStatus s = classify (last (plantData s))"
    by (auto simp add: dashboard_inv_iff)
  define s0 where "s0 = s\<lparr>selectedDayIndex := i, dayPickerVisible := False\<rparr>"
  define s1 where "s1 = s0\<lparr>plantData := data (allDaysData s ! i)\<rparr>"
  have pne: "plantData s \<noteq> []" using ne[OF sel] pd by simp
  have p1: "renderPass (Some s) s0 = Inr s1"
    using assms(2) pne pd
    by (simp add: renderPass_ok s0_def s1_def currentData_def)
  have p2: "renderPass (Some s0) s1 =
      Inr (s1\<lparr>plantStatus := classify (last (data (allDaysData s ! i)))\<rparr>)"
    using assms(2) ne[OF i] pne st
    by (auto simp add: renderPass_ok s0_def s1_def currentData_def)
  show ?thesis
    using p1 p2
    by (simp add: dispatch_def settle_def bind_result_def s0_def s1_def)
qed

lemma dispatch_PressRefresh:
  assumes "selectedDayIndex s < 7"
  shows "\<exists>st. dispatch env (PressRefresh now rnd) s =
     Inr (s\<lparr>allDaysData := generateHistoricalData env now rnd,
            plantData := data (generateHistoricalData env now rnd ! selectedDayIndex s),
            plantStatus := st\<rparr>) \<and>
     (plantStatus s = classify (last (plantData s)) \<longrightarrow>
        st = classify (last (data (generateHistoricalData env now rnd ! selectedDayIndex s))))"
proof -
  define new where "new = generateHistoricalData env now rnd"
  define s0 where "s0 = s\<lparr>allDaysData := new, plantData := data (new ! selectedDayIndex s)\<rparr>"
  define st where "st =
     (if currentData s \<noteq> Some (last (data (new ! selectedDayIndex s)))
      then classify (last (data (new ! selectedDayIndex s))) else plantStatus s)"
  have len: "length new = 7"
    unfolding new_def by (rule length_generateHistoricalData)
  have ne: "data (new ! selectedDayIndex s) \<noteq> []"
    using assms length_data_bucket[of env now rnd "36 * selectedDayIndex s" "selectedDayIndex s"]
    by (auto simp add: new_def nth_generateHistoricalData)
  have h: "refreshData env now rnd s = Inr s0"
    using assms len by (simp add: refreshData_def elementAt_def Let_def new_def[symmetric] s0_def)
  have p1: "renderPass (Some s) s0 = Inr (s0\<lparr>plantStatus := st\<rparr>)"
    using assms len ne by (simp add: renderPass_ok s0_def st_def)
  have p2: "renderPass (Some s0) (s0\<lparr>plantStatus := st\<rparr>) = Inr (s0\<lparr>plantStatus := st\<rparr>)"
    using assms len ne by (simp add: renderPass_noop s0_def)
  have d: "dispatch env (PressRefresh now rnd) s = Inr (s0\<lparr>plantStatus := st\<rparr>)"
    using h p1 p2 by (simp add: dispatch_def settle_def bind_result_def)
  have "plantStatus s = classify (last (plantData s)) \<longrightarrow>
        st = classify (last (data (new ! selectedDayIndex s)))"
    by (auto simp add: st_def currentData_def split: if_splits)
  with d show ?thesis
    unfolding s0_def new_def by auto
qed

lemma mount_result:
  "mount env now rnd =
     Inr \<lparr>allDaysData = generateHistoricalData env now rnd, selectedDayIndex = 0,
          plantData = data (generateHistoricalData env now rnd ! 0),
          selectedMetric = Temperature,
          plantStatus = classify (last (data (generateHistoricalData env now rnd ! 0))),
          dayPickerVisible = False\<rparr>"
proof -
  define new where "new = generateHistoricalData env now rnd"
  define s0 where "s0 = \<lparr>allDaysData = new, selectedDayIndex = 0, plantData = data (new ! 0),
             selectedMetric = Temperature, plantStatus = Healthy, dayPickerVisible = False\<rparr>"
  define s1 where "s1 = s0\<lparr>plantStatus := classify (last (data (new ! 0)))\<rparr>"
  have len: "length new = 7"
    unfolding new_def by (rule length_generateHistoricalData)
  have ne: "data (new ! 0) \<noteq> []"
    using length_data_bucket[of env now rnd 0 0]
    by (auto simp add: new_def nth_generateHistoricalData)
  from len have nn: "new \<noteq> []" by auto
  have m: "mount env now rnd = settle None s0"
    using nn by (simp add: mount_def elementAt_def Let_def new_def[symmetric] s0_def)
  have p1: "renderPass None s0 = Inr s1"
    using len ne by (simp add: renderPass_ok s0_def s1_def)
  have p2: "renderPass (Some s0) s1 = Inr s1"
    using len ne by (simp add: renderPass_noop s0_def s1_def)
  show ?thesis
    using m p1 p2 by (simp add: settle_def bind_result_def s0_def s1_def new_def)
qed

lemma generated_lengths:
  "map (\<lambda>d. length (data d)) (generateHistoricalData env now rnd) = replicate 7 12"
proof -
  have "replicate 7 (12::nat) = [12, 12, 12, 12, 12, 12, 12]"
    by (simp add: numeral_eq_Suc)
  then show ?thesis
    by (simp add: generateHistoricalData_closed bucket_def upt_conv_Cons del: upt_Suc)
qed

lemma mount_inv: "\<exists>s. mount env now rnd = Inr s \<and> dashboard_inv s \<and> selectedDayIndex s = 0"
  by (simp add: mount_result dashboard_inv_def generated_lengths)


lemma renderPass_frame:
  assumes "renderPass prev s = Inr s'"
  shows "allDaysData s' = allDaysData s \<and> selectedDayIndex s' = selectedDayIndex s \<and>
         selectedMetric s' = selectedMetric s \<and> dayPickerVisible s' = dayPickerVisible s"
proof -
  have "selectedDayIndex s < length (allDaysData s) \<and> plantData s \<noteq> []"
    using assms by (rule renderPass_Inr)
  then show ?thesis
    using assms by (auto simp add: renderPass_ok)
qed

lemma settle_frame:
  assumes "settle prev s = Inr s'"
  shows "allDaysData s' = allDaysData s \<and> selectedDayIndex s' = selectedDayIndex s \<and>
         selectedMetric s' = selectedMetric s \<and> dayPickerVisible s' = dayPickerVisible s"
proof -
  from assms obtain s1 where a: "renderPass prev s = Inr s1" and b: "renderPass (Some s) s1 = Inr s'"
    by (auto simp add: settle_def bind_result_def split: sum.splits)
  show ?thesis
    using renderPass_frame[OF a] renderPass_frame[OF b] by simp
qed

lemma dispatch_day_in_bounds:
  assumes "day_in_bounds s" and "offered s ev" and "dispatch env ev s = Inr s'"
  shows "day_in_bounds s'"
proof -
  from assms(3) obtain s0 where h: "handler env ev s = Inr s0" and t: "settle (Some s) s0 = Inr s'"
    by (auto simp add: dispatch_def bind_result_def split: sum.splits)
  have "day_in_bounds s0"
  proof (cases ev)
    case (PressRefresh now rnd)
    with h show ?thesis
      by (auto simp add: refreshData_def Let_def elementAt_def day_in_bounds_def
          length_generateHistoricalData split: if_splits)
  next
    case (PressMetric m)
    with h assms(1) show ?thesis by (auto simp add: day_in_bounds_def)
  next
    case (PressDay i)
    with h assms(1,2) show ?thesis by (auto simp add: day_in_bounds_def)
  next
    case OpenDayPicker
    with h assms(1) show ?thesis by (auto simp add: day_in_bounds_def)
  next
    case CloseDayPicker
    with h assms(1) show ?thesis by (auto simp add: day_in_bounds_def)
  qed
  then show ?thesis
    using settle_frame[OF t] by (simp add: day_in_bounds_def)
qed

lemma dashboard_inv_render:
  assumes "dashboard_inv s"
  shows "selectedDayIndex s < length (allDaysData s) \<and> plantData s \<noteq> [] \<and> day_in_bounds s"
  using assms by (auto simp add: dashboard_inv_iff day_in_bounds_def)

lemma dispatch_dashboard_inv:
  assumes "dashboard_inv s" and "offered s ev"
  shows "\<exists>s'. dispatch env ev s = Inr s' \<and> dashboard_inv s'"
proof (cases ev)
  case (PressRefresh now rnd)
  from assms(1) have sel: "selectedDayIndex s < 7" and st: "plantStatus s = classify (last (plantData s))"
    by (simp_all add: dashboard_inv_def)
  from dispatch_PressRefresh[OF sel, of env now rnd] st show ?thesis
    using sel by (auto simp add: PressRefresh dashboard_inv_def generated_lengths)
next
  case (PressMetric m)
  with assms(1) dashboard_inv_render[OF assms(1)] show ?thesis
    by (simp add: dispatch_PressMetric dashboard_inv_def)
next
  case (PressDay i)
  with assms have i: "i < length (allDaysData s)" by simp
  then have "i < 7" using assms(1) by (simp add: dashboard_inv_iff)
  then show ?thesis
    using assms(1) by (simp add: PressDay dispatch_PressDay[OF assms(1) i] dashboard_inv_def)
next
  case OpenDayPicker
  with assms(1) dashboard_inv_render[OF assms(1)] show ?thesis
    by (simp add: dispatch_OpenDayPicker dashboard_inv_def)
next
  case CloseDayPicker
  with assms(1) dashboard_inv_render[OF assms(1)] show ?thesis
    by (simp add: dispatch_CloseDayPicker dashboard_inv_def)
qed

lemma last_data_generated:
  assumes "i < 7"
  shows "last (data (generateHistoricalData env now rnd ! i)) =
     makeReading env (dayDate env now i) rnd (36 * i + 33) 22"
proof -
  have "last (data (bucket env now rnd (36 * i) i)) = data (bucket env now rnd (36 * i) i) ! 11"
    by (simp add: last_conv_nth length_data_bucket flip: length_0_conv)
  then show ?thesis
    using assms by (simp add: nth_generateHistoricalData nth_data_bucket)
qed

lemma makeReading_half:
  "temperature (makeReading env date half k h) = 70 \<and>
   humidity (makeReading env date half k h) = 60 \<and>
   soilMoisture (makeReading env date half k h) = 55"
  by (simp add: makeReading_def Let_def half_def Math_floor_def)

lemma classify_half: "classify (makeReading env date half k h) = Healthy"
  by (simp add: classify_def makeReading_half)

lemma mount_dashboard0: "mount host0 0 half = Inr dashboard0"
  by (simp add: mount_result dashboard0_def last_data_generated classify_half)

lemma dashboard_inv_dashboard0: "dashboard_inv dashboard0"
  by (simp add: dashboard_inv_def dashboard0_def generated_lengths last_data_generated classify_half)

lemma dashboard_inv_dashboard3: "dashboard_inv dashboard3"
  by (simp add: dashboard_inv_def dashboard3_def dashboard0_def generated_lengths last_data_generated
      classify_half)

lemma dispatch_PressDay3: "dispatch host0 (PressDay 3) dashboard0 = Inr dashboard3"
proof -
  have "3 < length (allDaysData dashboard0)"
    by (simp add: dashboard0_def length_generateHistoricalData)
  from dispatch_PressDay[OF dashboard_inv_dashboard0 this, of host0] show ?thesis
    by (simp add: dashboard3_def dashboard0_def last_data_generated classify_half)
qed

text \<open>
  Claim C6. The selected day index is within bounds of the generated set of seven
  buckets when the dashboard is mounted, and every operation keeps it so: pressing a row
  of the day picker, pressing a metric button, refreshing, opening and closing the
  picker. Moreover no operation throws on a dashboard at rest, and it leaves the
  dashboard at rest.
\<close>

theorem day_index_in_bounds_invariant:
  "(\<exists>s0. mount env now rnd = Inr s0 \<and> day_in_bounds s0 \<and> dashboard_inv s0) \<and>
   (day_in_bounds s \<and> offered s ev \<and> dispatch env ev s = Inr s' \<longrightarrow> day_in_bounds s') \<and>
   (dashboard_inv s \<and> offered s ev \<longrightarrow>
      (\<exists>s''. dispatch env ev s = Inr s'' \<and> dashboard_inv s'' \<and> day_in_bounds s''))"
proof -
  have a: "\<exists>s0. mount env now rnd = Inr s0 \<and> day_in_bounds s0 \<and> dashboard_inv s0"
    using mount_inv[of env now rnd] dashboard_inv_render by blast
  have b: "day_in_bounds s \<and> offered s ev \<and> dispatch env ev s = Inr s' \<longrightarrow> day_in_bounds s'"
    using dispatch_day_in_bounds by blast
  have c: "dashboard_inv s \<and> offered s ev \<longrightarrow>
      (\<exists>s''. dispatch env ev s = Inr s'' \<and> dashboard_inv s'' \<and> day_in_bounds s'')"
    using dispatch_dashboard_inv dashboard_inv_render by blast
  from a b c show ?thesis by blast
qed

theorem day_index_in_bounds_invariant_witness:
  "mount host0 0 half = Inr dashboard0 \<and> day_in_bounds dashboard0 \<and> dashboard_inv dashboard0 \<and>
   offered dashboard0 (PressDay 3) \<and> dispatch host0 (PressDay 3) dashboard0 = Inr dashboard3 \<and>
   day_in_bounds dashboard3 \<and> dashboard_inv dashboard3 \<and>
   selectedDayIndex dashboard0 = 0 \<and> selectedDayIndex dashboard3 = 3 \<and>
   length (allDaysData dashboard3) = 7"
proof -
  have o: "offered dashboard0 (PressDay 3)"
    by (simp add: dashboard0_def length_generateHistoricalData)
  have i0: "day_in_bounds dashboard0"
    by (simp add: day_in_bounds_def dashboard0_def length_generateHistoricalData)
  show ?thesis
    using day_index_in_bounds_invariant[of host0 0 half dashboard0 "PressDay 3" dashboard3]
      o i0 mount_dashboard0 dispatch_PressDay3 dashboard_inv_dashboard0
    by (simp add: dashboard3_def dashboard0_def length_generateHistoricalData)
qed

text \<open>
  Claim C5. Pressing row \<open>i\<close> of the day picker, for a valid index \<open>i\<close>, makes the
  displayed temperature, humidity and soil moisture those of the last reading of
  bucket \<open>i\<close>.
\<close>

theorem select_day_shows_last_reading:
  assumes "dashboard_inv s" and "i < length (allDaysData s)"
  shows "\<exists>s'. dispatch env (PressDay i) s = Inr s' \<and>
           selectedDayIndex s' = i \<and> allDaysData s' = allDaysData s \<and>
           plantData s' = data (allDaysData s ! i) \<and>
           currentData s' = Some (last (data (allDaysData s ! i))) \<and>
           displayedMetrics s' =
             Some (temperature (last (data (allDaysData s ! i))),
                   humidity (last (data (allDaysData s ! i))),
                   soilMoisture (last (data (allDaysData s ! i))))"
proof -
  from assms have "data (allDaysData s ! i) \<noteq> []"
    by (auto simp add: dashboard_inv_iff)
  then show ?thesis
    by (simp add: dispatch_PressDay[OF assms] displayedMetrics_def currentData_def)
qed

theorem select_day_shows_last_reading_witness:
  "dashboard_inv dashboard0 \<and> 3 < length (allDaysData dashboard0) \<and>
   dispatch host0 (PressDay 3) dashboard0 = Inr dashboard3 \<and>
   last (data (allDaysData dashboard0 ! 3)) = makeReading host0 (0 - 3 * msPerDay) half 141 22 \<and>
   currentData dashboard3 = Some (makeReading host0 (0 - 3 * msPerDay) half 141 22) \<and>
   displayedMetrics dashboard3 = Some (70, 60, 55)"
proof -
  have l: "3 < length (allDaysData dashboard0)"
    by (simp add: dashboard0_def length_generateHistoricalData)
  have r: "last (data (allDaysData dashboard0 ! 3)) = makeReading host0 (0 - 3 * msPerDay) half 141 22"
    by (simp add: dashboard0_def last_data_generated dayDate_host0)
  show ?thesis
    using select_day_shows_last_reading[OF dashboard_inv_dashboard0 l, of host0]
      dashboard_inv_dashboard0 l
    by (simp add: dispatch_PressDay3 r makeReading_half)
qed

text \<open>
  Claim C4. Refreshing replaces the dataset by the seven freshly generated buckets and
  leaves the selected day index as it was; the active reading sequence is then the
  bucket at that index of the new dataset.
\<close>

theorem refresh_keeps_selected_day:
  assumes "day_in_bounds s"
  shows "\<exists>s'. dispatch env (PressRefresh now rnd) s = Inr s' \<and>
           allDaysData s' = generateHistoricalData env now rnd \<and>
           length (allDaysData s') = 7 \<and>
           selectedDayIndex s' = selectedDayIndex s \<and>
           plantData s' = data (allDaysData s' ! selectedDayIndex s')"
proof -
  from assms have "selectedDayIndex s < 7" by (simp add: day_in_bounds_def)
  from dispatch_PressRefresh[OF this, of env now rnd] show ?thesis
    by (auto simp add: length_generateHistoricalData)
qed

theorem refresh_keeps_selected_day_witness:
  "day_in_bounds dashboard3 \<and> selectedDayIndex dashboard3 = 3 \<and>
   (case dispatch host0 (PressRefresh 100000000 nines) dashboard3 of
      Inl e \<Rightarrow> False
    | Inr s' \<Rightarrow>
        allDaysData s' = generateHistoricalData host0 100000000 nines \<and>
        selectedDayIndex s' = 3 \<and>
        plantData s' = data (generateHistoricalData host0 100000000 nines ! 3))"
proof -
  have i: "day_in_bounds dashboard3"
    by (simp add: day_in_bounds_def dashboard3_def dashboard0_def length_generateHistoricalData)
  have s: "selectedDayIndex dashboard3 = 3" by (simp add: dashboard3_def)
  from refresh_keeps_selected_day[OF i, of host0 100000000 nines] i s show ?thesis
    by auto
qed

text \<open>
  Claim C10. Pressing a metric button changes the selected metric and nothing else: the
  dataset, the selected day index, the active reading sequence and the plant status
  stay as they were.
\<close>

theorem select_metric_changes_only_metric:
  assumes "dashboard_inv s"
  shows "\<exists>s'. dispatch env (PressMetric m) s = Inr s' \<and>
           s' = s\<lparr>selectedMetric := m\<rparr> \<and> selectedMetric s' = m \<and>
           allDaysData s' = allDaysData s \<and> selectedDayIndex s' = selectedDayIndex s \<and>
           plantData s' = plantData s \<and> plantStatus s' = plantStatus s \<and>
           dayPickerVisible s' = dayPickerVisible s"
  using dashboard_inv_render[OF assms] by (simp add: dispatch_PressMetric)

theorem select_metric_changes_only_metric_witness:
  "dashboard_inv dashboard3 \<and>
   dispatch host0 (PressMetric SoilMoisture) dashboard3 = Inr (dashboard3\<lparr>selectedMetric := SoilMoisture\<rparr>) \<and>
   selectedDayIndex (dashboard3\<lparr>selectedMetric := SoilMoisture\<rparr>) = 3 \<and>
   plantStatus (dashboard3\<lparr>selectedMetric := SoilMoisture\<rparr>) = Healthy"
  using select_metric_changes_only_metric[OF dashboard_inv_dashboard3, of host0 SoilMoisture]
    dashboard_inv_dashboard3
  by (auto simp add: dashboard3_def dashboard0_def)

end
